theory Spec2Isabelle
  imports Main
begin

section \<open>The worker client of \<^verbatim>\<open>execute.py\<close>\<close>

text \<open>
  The program is glue around four kinds of effect: console output, a pause, HTTP
  requests to the coordinator, and reads of the local artifact files. Each function of
  the source is embedded as a function that returns the list of effects it performs, in
  order, together with its result; a raised exception is the left injection of a sum.
  What the outside world answers (HTTP responses, whether a file opens, how training
  ends) is read from a record, one record per cycle of the loop.

  Strings are lists of 8-bit characters. The program only moves its texts around: it
  joins and prints them and hands one to \<open>int\<close>, which is a component of the host,
  so nothing below depends on how a text is encoded.
\<close>

subsection \<open>Exceptions\<close>

text \<open>
  The classes of exception that the program raises itself or receives from the
  libraries it calls. \<open>KeyboardInterrupt\<close>, \<open>SystemExit\<close> and
  \<open>GeneratorExit\<close> derive from \<open>BaseException\<close> directly; all others derive
  from \<open>Exception\<close>. The string carried by \<open>Raised\<close> is what \<open>str(e)\<close>
  gives.
\<close>

datatype exc_class =
    Exception
  | ValueError
  | KeyError
  | TypeError
  | OSError
  | RequestException
  | JSONDecodeError
  | RuntimeError
  | BaseException
  | KeyboardInterrupt
  | SystemExit
  | GeneratorExit

datatype pyexc = Raised exc_class string

fun subclass_of_Exception :: "exc_class \<Rightarrow> bool" where
  "subclass_of_Exception BaseException = False"
| "subclass_of_Exception KeyboardInterrupt = False"
| "subclass_of_Exception SystemExit = False"
| "subclass_of_Exception GeneratorExit = False"
| "subclass_of_Exception _ = True"

fun is_Exception :: "pyexc \<Rightarrow> bool" where
  "is_Exception (Raised c _) = subclass_of_Exception c"

text \<open>
  What \<open>except ValueError\<close> catches: \<open>ValueError\<close> and, of the classes above,
  its subclass \<open>JSONDecodeError\<close>.
\<close>

fun subclass_of_ValueError :: "exc_class \<Rightarrow> bool" where
  "subclass_of_ValueError ValueError = True"
| "subclass_of_ValueError JSONDecodeError = True"
| "subclass_of_ValueError _ = False"

fun is_ValueError :: "pyexc \<Rightarrow> bool" where
  "is_ValueError (Raised c _) = subclass_of_ValueError c"

fun str_exc :: "pyexc \<Rightarrow> string" where
  "str_exc (Raised _ msg) = msg"

subsection \<open>JSON values, requests and responses\<close>

text \<open>
  A parsed JSON document, as \<open>response.json()\<close> returns it. An object is the list
  of the members of the dictionary, each key once; \<open>map_of\<close> looks a key up.
  Numbers are integers: no property below depends on a number.
\<close>

datatype json =
    JNull
  | JBool bool
  | JNum int
  | JStr string
  | JArr "json list"
  | JObj "(string \<times> json) list"

text \<open>
  \<open>task['args']\<close>: subscripting with a string key. Only a dictionary has string
  keys; every other value raises \<open>TypeError\<close> (messages as CPython 3.11 words them).
\<close>

definition quote :: "string \<Rightarrow> string" where
  "quote s = [CHR 0x27] @ s @ [CHR 0x27]"

definition not_subscriptable :: "string \<Rightarrow> pyexc" where
  "not_subscriptable ty = Raised TypeError (quote ty @ '' object is not subscriptable'')"

fun getitem :: "json \<Rightarrow> string \<Rightarrow> pyexc + json" where
  "getitem (JObj kvs) k =
     (case map_of kvs k of
        Some v \<Rightarrow> Inr v
      | None \<Rightarrow> Inl (Raised KeyError (quote k)))"
| "getitem (JArr _) k =
     Inl (Raised TypeError ''list indices must be integers or slices, not str'')"
| "getitem (JStr _) k =
     Inl (Raised TypeError (''string indices must be integers, not '' @ quote ''str''))"
| "getitem (JNum _) k = Inl (not_subscriptable ''int'')"
| "getitem (JBool _) k = Inl (not_subscriptable ''bool'')"
| "getitem JNull k = Inl (not_subscriptable ''NoneType'')"

text \<open>
  \<open>json.dumps\<close> is kept as a constructor: the text of an encoded value is determined
  by the value.
\<close>

datatype encoded = json_dumps json

text \<open>An open file object: the path it was opened from and the bytes it holds.\<close>

record file_obj =
  file_path :: string
  file_bytes :: string

text \<open>
  The values of the \<open>files\<close> dictionary handed to \<open>requests.post\<close>: an open file,
  or a tuple of file name, content and content type.
\<close>

datatype part =
    FilePart file_obj
  | TuplePart "string option" encoded string

text \<open>
  The two shapes of \<open>requests.post\<close> that the source uses, with their URL and
  timeout: \<open>json=\<close> and \<open>files=\<close>.
\<close>

datatype request =
    PostJson string nat json
  | PostFiles string nat "(string \<times> part) list"

text \<open>
  A response: its status code, and what \<open>response.json()\<close> does (returns the parsed
  body or raises).
\<close>

record response =
  status_code :: int
  json_result :: "pyexc + json"

subsection \<open>Effects and the outside world\<close>

datatype event =
    Print string
  | Sleep nat
  | Post request
  | Open string
  | Close string
  | Train json int

text \<open>
  What the world answers during one cycle of the loop. Each endpoint is called, and each
  file is opened, at most once per cycle, so a function of the request (of the path)
  loses nothing.
\<close>

record world =
  sleep_result :: "pyexc option"
  post :: "request \<Rightarrow> pyexc + response"
  fs_open :: "string \<Rightarrow> pyexc + file_obj"
  training :: "json \<Rightarrow> int \<Rightarrow> pyexc option"

text \<open>Sequencing: the second computation runs only when the first did not raise.\<close>

definition and_then ::
  "event list \<times> (pyexc + 'a) \<Rightarrow> ('a \<Rightarrow> event list \<times> (pyexc + 'b)) \<Rightarrow> event list \<times> (pyexc + 'b)"
where
  "and_then m f =
     (case m of
        (t, Inl e) \<Rightarrow> (t, Inl e)
      | (t, Inr x) \<Rightarrow> (case f x of (t', r) \<Rightarrow> (t @ t', r)))"

subsection \<open>Console output\<close>

definition node_url :: string where
  "node_url = ''https://mainnet.nimble.technology:443''"

definition ESC :: string where
  "ESC = [CHR 0x1B]"

definition red :: string where "red = ESC @ ''[31m''"
definition green :: string where "green = ESC @ ''[32m''"
definition yellow :: string where "yellow = ESC @ ''[33m''"
definition blue :: string where "blue = ESC @ ''[34m''"

definition END_COLOR :: string where
  "END_COLOR = ESC @ ''[0m''"

definition print_in_color :: "string \<Rightarrow> string \<Rightarrow> event" where
  "print_in_color text color_code = Print (color_code @ text @ END_COLOR)"

subsection \<open>Decimal numerals\<close>

text \<open>\<open>str(n)\<close> of an integer, as the f-strings of the source format it.\<close>

definition digit_char :: "nat \<Rightarrow> char" where
  "digit_char d = char_of (48 + d)"

fun str_nat :: "nat \<Rightarrow> string" where
  "str_nat n = (if n < 10 then [digit_char n] else str_nat (n div 10) @ [digit_char (n mod 10)])"

declare str_nat.simps [simp del]

definition str_int :: "int \<Rightarrow> string" where
  "str_int i = (if i < 0 then CHR ''-'' # str_nat (nat (- i)) else str_nat (nat i))"

text \<open>
  A reader of decimal numerals for texts of ASCII characters, which the example hosts
  below use as their \<open>int\<close>. It follows what \<open>int(s)\<close> does on such a text:
  the white space of ASCII (tab, line feed, vertical tab, form feed, carriage return,
  space) is stripped at both ends, one sign may lead, and the digits may be separated by
  single underscores. \<open>None\<close> stands for the \<open>ValueError\<close> that \<open>int\<close>
  raises on any other text, also on a text with more digits than the interpreter's limit
  (\<open>max_str_digits\<close>, where \<open>0\<close> switches the limit off). Texts with a character
  above \<open>0x7F\<close> are outside this reader: it refuses them all. No property of the
  program below is stated through this reader; the program's \<open>int\<close> is a component
  of the host.
\<close>

definition is_space :: "char \<Rightarrow> bool" where
  "is_space c = ((of_char c :: nat) \<in> {9, 10, 11, 12, 13, 32})"

definition is_digit :: "char \<Rightarrow> bool" where
  "is_digit c = (48 \<le> (of_char c :: nat) \<and> (of_char c :: nat) \<le> 57)"

definition digit_val :: "char \<Rightarrow> nat" where
  "digit_val c = of_char c - 48"

definition strip :: "string \<Rightarrow> string" where
  "strip s = rev (dropWhile is_space (rev (dropWhile is_space s)))"

fun parse_digits :: "string \<Rightarrow> nat \<Rightarrow> nat option" where
  "parse_digits [] acc = Some acc"
| "parse_digits (c # cs) acc =
     (if is_digit c then parse_digits cs (10 * acc + digit_val c)
      else if c = CHR ''_'' then
        (case cs of
           [] \<Rightarrow> None
         | d # ds \<Rightarrow> if is_digit d then parse_digits ds (10 * acc + digit_val d) else None)
      else None)"

definition parse_unsigned :: "nat \<Rightarrow> string \<Rightarrow> nat option" where
  "parse_unsigned max_str_digits s =
     (case s of
        [] \<Rightarrow> None
      | c # cs \<Rightarrow>
          if \<not> is_digit c then None
          else if 0 < max_str_digits \<and> max_str_digits < length (filter is_digit s) then None
          else parse_digits cs (digit_val c))"

definition ascii_int :: "nat \<Rightarrow> string \<Rightarrow> int option" where
  "ascii_int max_str_digits s =
     (case strip s of
        [] \<Rightarrow> None
      | c # cs \<Rightarrow>
          if c = CHR ''-'' then map_option (\<lambda>n. - int n) (parse_unsigned max_str_digits cs)
          else if c = CHR ''+'' then map_option int (parse_unsigned max_str_digits cs)
          else map_option int (parse_unsigned max_str_digits (c # cs)))"

subsection \<open>The coordinator client\<close>

definition acquire_request :: "string \<Rightarrow> request" where
  "acquire_request addr =
     PostJson (node_url @ ''/register_particle'') 10 (JObj [(''address'', JStr addr)])"

definition register_particle :: "world \<Rightarrow> string \<Rightarrow> event list \<times> (pyexc + json)" where
  "register_particle w addr =
     (let req = acquire_request addr in
      case post w req of
        Inl e \<Rightarrow> ([Post req], Inl e)
      | Inr response \<Rightarrow>
          if status_code response \<noteq> 200
          then ([Post req], Inl (Raised Exception ''Failed to init particle: Try later.''))
          else (case json_result response of
                  Inl e \<Rightarrow> ([Post req], Inl e)
                | Inr task \<Rightarrow> ([Post req], getitem task ''args'')))"

definition config_path :: string where
  "config_path = ''my_model/config.json''"

definition training_args_path :: string where
  "training_args_path = ''my_model/training_args.bin''"

definition submit_request :: "file_obj \<Rightarrow> file_obj \<Rightarrow> string \<Rightarrow> request" where
  "submit_request f1 f2 wallet_address =
     (let json_data = json_dumps (JObj [(''address'', JStr wallet_address)]);
          files = [(''file1'', FilePart f1), (''file2'', FilePart f2)];
          files = files @ [(''r'', TuplePart None json_data ''application/json'')]
      in PostFiles (node_url @ ''/complete_task'') 60 files)"

definition complete_task :: "world \<Rightarrow> string \<Rightarrow> event list \<times> (pyexc + json)" where
  "complete_task w wallet_address =
     (case fs_open w config_path of
        Inl e \<Rightarrow> ([Open config_path], Inl e)
      | Inr f1 \<Rightarrow>
          (case fs_open w training_args_path of
             Inl e \<Rightarrow> ([Open config_path, Open training_args_path], Inl e)
           | Inr f2 \<Rightarrow>
               (let req = submit_request f1 f2 wallet_address;
                    t = [Open config_path, Open training_args_path, Post req]
                in case post w req of
                     Inl e \<Rightarrow> (t, Inl e)
                   | Inr response \<Rightarrow>
                       if status_code response \<noteq> 200
                       then (t, Inl (Raised Exception ''Failed to complete task: Try later.''))
                       else (t, json_result response))))"

subsection \<open>The task executor\<close>

text \<open>
  \<open>execute\<close> announces the start and then loads, trains and saves the model. All of
  that after the announcement is the training collaborator: one \<open>Train\<close> effect whose
  outcome the world gives.
\<close>

definition execute :: "world \<Rightarrow> json \<Rightarrow> int \<Rightarrow> event list \<times> (pyexc + unit)" where
  "execute w task_args gpu_index =
     (let t = [print_in_color ''Starting training...'' blue, Train task_args gpu_index] in
      case training w task_args gpu_index of
        Some e \<Rightarrow> (t, Inl e)
      | None \<Rightarrow> (t, Inr ()))"

subsection \<open>Start-up and the device selector\<close>

text \<open>
  What the process finds when it starts: \<open>sys.argv\<close>, the number of CUDA devices
  and their names, and the interpreter's built-in \<open>int\<close> on a text: \<open>py_int\<close>
  gives the integer that \<open>int(s)\<close> returns, or the exception that it raises (a
  \<open>ValueError\<close> when the text is not a numeral).
\<close>

record host =
  argv :: "string list"
  device_count :: nat
  get_device_name :: "nat \<Rightarrow> string"
  py_int :: "string \<Rightarrow> pyexc + int"

text \<open>
  The body of the \<open>try\<close> inside \<open>perform\<close>: \<open>int(sys.argv[2])\<close>, then
  the range test with its \<open>raise ValueError()\<close>.
\<close>

definition requested_gpu_index :: "host \<Rightarrow> pyexc + int" where
  "requested_gpu_index h =
     (let num_devices = device_count h in
      case py_int h (argv h ! 2) of
        Inl e \<Rightarrow> Inl e
      | Inr gpu_index \<Rightarrow>
          if gpu_index < 0 \<or> int num_devices \<le> gpu_index
          then Inl (Raised ValueError [])
          else Inr gpu_index)"

text \<open>
  The selection of the device index inside \<open>perform\<close>: the \<open>try\<close> with its
  \<open>except ValueError\<close>, which prints the warning and takes the default, and the
  \<open>else\<close> for a missing argument. An exception that is not a \<open>ValueError\<close>
  is not caught and leaves the selection.
\<close>

definition select_gpu_index :: "host \<Rightarrow> event list \<times> (pyexc + int)" where
  "select_gpu_index h =
     (if 2 < length (argv h) then
        (case requested_gpu_index h of
           Inr gpu_index \<Rightarrow> ([], Inr gpu_index)
         | Inl e \<Rightarrow>
             if is_ValueError e
             then ([print_in_color
                      (''Error: Invalid GPU index '' @ quote (argv h ! 2) @
                       ''. Using default (0).'') red],
                   Inr 0)
             else ([], Inl e))
      else ([print_in_color ''No GPU index provided. Using default (0).'' yellow], Inr 0))"

subsection \<open>The worker loop\<close>

definition say :: "event \<Rightarrow> event list \<times> (pyexc + unit)" where
  "say ev = ([ev], Inr ())"

definition sleep :: "world \<Rightarrow> nat \<Rightarrow> event list \<times> (pyexc + unit)" where
  "sleep w secs = ([Sleep secs], (case sleep_result w of Some e \<Rightarrow> Inl e | None \<Rightarrow> Inr ()))"

text \<open>The body of the \<open>try\<close>: the statements of one cycle, in order.\<close>

definition cycle_body :: "world \<Rightarrow> string \<Rightarrow> int \<Rightarrow> event list \<times> (pyexc + unit)" where
  "cycle_body w addr gpu_index =
     and_then (say (print_in_color ''Preparing'' yellow)) (\<lambda>_.
     and_then (sleep w 10) (\<lambda>_.
     and_then (register_particle w addr) (\<lambda>task_args.
     and_then (say (print_in_color (''Address '' @ addr @ '' received the task.'') yellow)) (\<lambda>_.
     and_then (execute w task_args gpu_index) (\<lambda>_.
     and_then (say (print_in_color (''Address '' @ addr @ '' executed the task.'') green)) (\<lambda>_.
     and_then (complete_task w addr) (\<lambda>_.
     say (print_in_color (''Address '' @ addr @ '' completed the task. '') green))))))))"

definition error_report :: "pyexc \<Rightarrow> event" where
  "error_report e = print_in_color (''Error: '' @ str_exc e) red"

text \<open>
  One pass of the \<open>while\<close>: the \<open>try\<close> with its \<open>except Exception\<close>. The
  second component is \<open>Some e\<close> when \<open>e\<close> is not caught and leaves the loop.
\<close>

definition cycle :: "world \<Rightarrow> string \<Rightarrow> int \<Rightarrow> event list \<times> pyexc option" where
  "cycle w addr gpu_index =
     (case cycle_body w addr gpu_index of
        (t, Inr _) \<Rightarrow> (t, None)
      | (t, Inl e) \<Rightarrow>
          if is_Exception e then (t @ [error_report e], None) else (t, Some e))"

text \<open>
  How a run stands: \<open>perform\<close> has returned, an exception has left it, or it is
  still in its loop after the cycles observed.
\<close>

datatype status = Returned | Uncaught pyexc | Running

text \<open>
  \<open>while True\<close> over the worlds of the first cycles: the loop has no exit of its own,
  so after the last observed cycle it is \<open>Running\<close>.
\<close>

fun worker_loop :: "world list \<Rightarrow> string \<Rightarrow> int \<Rightarrow> event list \<times> status" where
  "worker_loop [] addr gpu_index = ([], Running)"
| "worker_loop (w # ws) addr gpu_index =
     (case cycle w addr gpu_index of
        (t, Some e) \<Rightarrow> (t, Uncaught e)
      | (t, None) \<Rightarrow> (case worker_loop ws addr gpu_index of (t', s) \<Rightarrow> (t @ t', s)))"

definition device_listing :: "host \<Rightarrow> event list" where
  "device_listing h =
     print_in_color ''Available CUDA devices:'' yellow #
     map (\<lambda>i. print_in_color (str_nat i @ '': '' @ get_device_name h i) yellow)
       [0..<device_count h]"

definition perform :: "host \<Rightarrow> world list \<Rightarrow> event list \<times> status" where
  "perform h ws =
     (if length (argv h) < 2
      then ([print_in_color ''Error: Address not provided.'' red], Returned)
      else
        (let addr = argv h ! 1; num_devices = device_count h in
         if num_devices = 0
         then ([print_in_color ''No CUDA devices available. exiting.'' yellow], Returned)
         else
           (case select_gpu_index h of
              (sel, Inl e) \<Rightarrow> (device_listing h @ sel, Uncaught e)
            | (sel, Inr gpu_index) \<Rightarrow>
                (let started = print_in_color
                       (''Address '' @ addr @ '' started to work on GPU '' @ str_int gpu_index @ ''.'')
                       yellow
                 in case worker_loop ws addr gpu_index of
                      (t, s) \<Rightarrow> (device_listing h @ sel @ [started] @ t, s)))))"

subsection \<open>Reading a trace\<close>

fun is_Print :: "event \<Rightarrow> bool" where
  "is_Print (Print _) = True"
| "is_Print _ = False"

fun is_Close :: "event \<Rightarrow> bool" where
  "is_Close (Close _) = True"
| "is_Close _ = False"

fun is_Post :: "event \<Rightarrow> bool" where
  "is_Post (Post _) = True"
| "is_Post _ = False"

fun is_Open :: "event \<Rightarrow> bool" where
  "is_Open (Open _) = True"
| "is_Open _ = False"

fun is_Train :: "event \<Rightarrow> bool" where
  "is_Train (Train _ _) = True"
| "is_Train _ = False"

fun is_PostFiles :: "request \<Rightarrow> bool" where
  "is_PostFiles (PostFiles _ _ _) = True"
| "is_PostFiles _ = False"

text \<open>An error report of the loop is a line printed in red that starts with \<open>Error: \<close>.\<close>

fun is_error_report :: "event \<Rightarrow> bool" where
  "is_error_report (Print s) = (take (length (red @ ''Error: '')) s = red @ ''Error: '')"
| "is_error_report _ = False"

text \<open>
  The files that the program has opened and not closed by the end of a trace: every
  \<open>Open\<close> of a path that the world lets open adds a handle, every \<open>Close\<close>
  of the path removes one.
\<close>

fun open_handles :: "world \<Rightarrow> event list \<Rightarrow> string list \<Rightarrow> string list" where
  "open_handles w [] hs = hs"
| "open_handles w (Open p # t) hs =
     (case fs_open w p of
        Inl _ \<Rightarrow> open_handles w t hs
      | Inr _ \<Rightarrow> open_handles w t (hs @ [p]))"
| "open_handles w (Close p # t) hs = open_handles w t (remove1 p hs)"
| "open_handles w (_ # t) hs = open_handles w t hs"

subsection \<open>Stages of a cycle\<close>

text \<open>
  The states of the loop. \<open>raises_at w addr g s e\<close> says that, in the world
  \<open>w\<close>, the cycle reaches the stage \<open>s\<close> and the call made there raises
  \<open>e\<close>: the pause for \<open>Preparing\<close>, \<open>register_particle\<close> for
  \<open>Acquiring\<close>, \<open>execute\<close> for \<open>Executing\<close>, \<open>complete_task\<close> for
  \<open>Submitting\<close>. \<open>trace_until\<close> is what the cycle has done when that call ends.
\<close>

datatype stage = Preparing | Acquiring | Executing | Submitting

fun raises_at :: "world \<Rightarrow> string \<Rightarrow> int \<Rightarrow> stage \<Rightarrow> pyexc \<Rightarrow> bool" where
  "raises_at w addr g Preparing e = (sleep_result w = Some e)"
| "raises_at w addr g Acquiring e =
     (sleep_result w = None \<and> snd (register_particle w addr) = Inl e)"
| "raises_at w addr g Executing e =
     (sleep_result w = None \<and>
      (case snd (register_particle w addr) of
         Inl _ \<Rightarrow> False
       | Inr task_args \<Rightarrow> snd (execute w task_args g) = Inl e))"
| "raises_at w addr g Submitting e =
     (sleep_result w = None \<and>
      (case snd (register_particle w addr) of
         Inl _ \<Rightarrow> False
       | Inr task_args \<Rightarrow>
           snd (execute w task_args g) = Inr () \<and> snd (complete_task w addr) = Inl e))"

definition until_prepared :: "event list" where
  "until_prepared = [print_in_color ''Preparing'' yellow, Sleep 10]"

definition until_acquired :: "world \<Rightarrow> string \<Rightarrow> event list" where
  "until_acquired w addr = until_prepared @ fst (register_particle w addr)"

definition until_executed :: "world \<Rightarrow> string \<Rightarrow> int \<Rightarrow> event list" where
  "until_executed w addr g =
     until_acquired w addr @
     [print_in_color (''Address '' @ addr @ '' received the task.'') yellow] @
     (case snd (register_particle w addr) of
        Inl _ \<Rightarrow> []
      | Inr task_args \<Rightarrow> fst (execute w task_args g))"

definition until_submitted :: "world \<Rightarrow> string \<Rightarrow> int \<Rightarrow> event list" where
  "until_submitted w addr g =
     until_executed w addr g @
     [print_in_color (''Address '' @ addr @ '' executed the task.'') green] @
     fst (complete_task w addr)"

fun trace_until :: "world \<Rightarrow> string \<Rightarrow> int \<Rightarrow> stage \<Rightarrow> event list" where
  "trace_until w addr g Preparing = until_prepared"
| "trace_until w addr g Acquiring = until_acquired w addr"
| "trace_until w addr g Executing = until_executed w addr g"
| "trace_until w addr g Submitting = until_submitted w addr g"

subsection \<open>Example worlds\<close>

text \<open>
  The task of the end-to-end scenario, and worlds in which a cycle succeeds or fails at
  one place.
\<close>

definition example_args :: json where
  "example_args =
     JObj [(''model_name'', JStr ''m''), (''dataset_name'', JStr ''d''),
           (''num_labels'', JNum 2), (''num_rows'', JNum 10), (''seed'', JNum 1)]"

definition respond :: "int \<Rightarrow> json \<Rightarrow> pyexc + response" where
  "respond code body = Inr \<lparr>status_code = code, json_result = Inr body\<rparr>"

definition file_at :: "string \<Rightarrow> pyexc + file_obj" where
  "file_at p = Inr \<lparr>file_path = p, file_bytes = []\<rparr>"

definition coordinator_ok :: "request \<Rightarrow> pyexc + response" where
  "coordinator_ok req =
     (case req of
        PostJson _ _ _ \<Rightarrow> respond 200 (JObj [(''args'', example_args)])
      | PostFiles _ _ _ \<Rightarrow> respond 200 (JObj [(''status'', JStr ''ok'')]))"

definition world_ok :: world where
  "world_ok =
     \<lparr>sleep_result = None, post = coordinator_ok, fs_open = file_at,
      training = (\<lambda>_ _. None)\<rparr>"

definition world_acquire_500 :: world where
  "world_acquire_500 =
     world_ok\<lparr>post := (\<lambda>req. case req of
        PostJson _ _ _ \<Rightarrow> respond 500 JNull
      | PostFiles _ _ _ \<Rightarrow> coordinator_ok req)\<rparr>"

definition world_training_fails :: world where
  "world_training_fails =
     world_ok\<lparr>training := (\<lambda>_ _. Some (Raised RuntimeError ''CUDA out of memory''))\<rparr>"

definition world_submit_503 :: world where
  "world_submit_503 =
     world_ok\<lparr>post := (\<lambda>req. case req of
        PostJson _ _ _ \<Rightarrow> coordinator_ok req
      | PostFiles _ _ _ \<Rightarrow> respond 503 JNull)\<rparr>"

definition world_submit_timeout :: world where
  "world_submit_timeout =
     world_ok\<lparr>post := (\<lambda>req. case req of
        PostJson _ _ _ \<Rightarrow> coordinator_ok req
      | PostFiles _ _ _ \<Rightarrow> Inl (Raised RequestException ''Read timed out.''))\<rparr>"

definition world_no_config :: world where
  "world_no_config =
     world_ok\<lparr>fs_open := (\<lambda>p. if p = config_path
        then Inl (Raised OSError ''No such file or directory'') else file_at p)\<rparr>"

definition world_no_training_args :: world where
  "world_no_training_args =
     world_ok\<lparr>fs_open := (\<lambda>p. if p = training_args_path
        then Inl (Raised OSError ''No such file or directory'') else file_at p)\<rparr>"

definition world_interrupted :: world where
  "world_interrupted =
     world_ok\<lparr>training := (\<lambda>_ _. Some (Raised KeyboardInterrupt []))\<rparr>"

definition example_submit_request :: request where
  "example_submit_request =
     submit_request \<lparr>file_path = config_path, file_bytes = []\<rparr>
       \<lparr>file_path = training_args_path, file_bytes = []\<rparr> ''0xABC''"

definition other_ack :: response where
  "other_ack = \<lparr>status_code = 200, json_result = Inr (JArr [JStr ''duplicate'', JNum 7])\<rparr>"

text \<open>
  The \<open>int\<close> of the example hosts: the reader of ASCII numerals, with the
  \<open>ValueError\<close> of an invalid literal (the program never reads its message).
\<close>

definition ascii_reader :: "nat \<Rightarrow> string \<Rightarrow> pyexc + int" where
  "ascii_reader max_str_digits s =
     (case ascii_int max_str_digits s of
        None \<Rightarrow> Inl (Raised ValueError (''invalid literal for int() with base 10: '' @ quote s))
      | Some i \<Rightarrow> Inr i)"

definition host_example :: "string list \<Rightarrow> nat \<Rightarrow> host" where
  "host_example args n =
     \<lparr>argv = args, device_count = n, get_device_name = (\<lambda>_. ''GPU''),
      py_int = ascii_reader 4300\<rparr>"

section \<open>Properties\<close>

subsection \<open>Helper facts\<close>

lemma paths_differ: "training_args_path \<noteq> config_path"
  by (simp add: training_args_path_def config_path_def)

lemma complete_task_trace_cases:
  "fst (complete_task w a) =
     (case fs_open w config_path of
        Inl _ \<Rightarrow> [Open config_path]
      | Inr f1 \<Rightarrow>
          (case fs_open w training_args_path of
             Inl _ \<Rightarrow> [Open config_path, Open training_args_path]
           | Inr f2 \<Rightarrow>
               [Open config_path, Open training_args_path, Post (submit_request f1 f2 a)]))"
  by (simp add: complete_task_def Let_def split: sum.splits)

lemma of_char_digit_char: "d < 10 \<Longrightarrow> (of_char (digit_char d) :: nat) = 48 + d"
  by (simp add: digit_char_def)

lemma is_digit_digit_char: "d < 10 \<Longrightarrow> is_digit (digit_char d)"
  by (simp add: is_digit_def of_char_digit_char)

lemma digit_val_digit_char: "d < 10 \<Longrightarrow> digit_val (digit_char d) = d"
  by (simp add: digit_val_def of_char_digit_char)

lemma is_digit_not_space: "is_digit c \<Longrightarrow> \<not> is_space c"
  by (auto simp: is_digit_def is_space_def)

lemma is_digit_not_sign: "is_digit c \<Longrightarrow> c \<noteq> CHR ''-'' \<and> c \<noteq> CHR ''+''"
  by (auto simp: is_digit_def)

lemma str_nat_digits: "\<forall>c \<in> set (str_nat n). is_digit c"
proof (induction n rule: str_nat.induct)
  case (1 n)
  show ?case
  proof (cases "n < 10")
    case True
    then show ?thesis by (subst str_nat.simps) (simp add: is_digit_digit_char)
  next
    case False
    with 1 show ?thesis by (subst str_nat.simps) (simp add: is_digit_digit_char)
  qed
qed

lemma str_nat_nonempty: "str_nat n \<noteq> []"
  by (subst str_nat.simps) simp

lemma parse_digits_all_digits:
  "\<forall>c \<in> set ds. is_digit c \<Longrightarrow>
     parse_digits ds acc = Some (foldl (\<lambda>a c. 10 * a + digit_val c) acc ds)"
  by (induction ds arbitrary: acc) simp_all

lemma str_nat_value: "foldl (\<lambda>a c. 10 * a + digit_val c) 0 (str_nat n) = n"
proof (induction n rule: str_nat.induct)
  case (1 n)
  show ?case
  proof (cases "n < 10")
    case True
    then show ?thesis by (subst str_nat.simps) (simp add: digit_val_digit_char)
  next
    case False
    with 1 show ?thesis by (subst str_nat.simps) (simp add: digit_val_digit_char)
  qed
qed

lemma strip_digits:
  assumes "s \<noteq> []" and "\<forall>c \<in> set s. is_digit c"
  shows "strip s = s"
proof -
  from assms have "\<not> is_space (hd s)" by (simp add: is_digit_not_space)
  with assms(1) have a: "dropWhile is_space s = s" by (cases s) simp_all
  from assms have "\<not> is_space (hd (rev s))"
    by (simp add: is_digit_not_space hd_rev)
  with assms(1) have "dropWhile is_space (rev s) = rev s" by (cases "rev s") simp_all
  with a show ?thesis by (simp add: strip_def)
qed

lemma ascii_int_str_nat:
  assumes "lim = 0 \<or> length (str_nat n) \<le> lim"
  shows "ascii_int lim (str_nat n) = Some (int n)"
proof -
  obtain c cs where s: "str_nat n = c # cs"
    using str_nat_nonempty by (cases "str_nat n") auto
  have dig: "\<forall>x \<in> set (c # cs). is_digit x" using str_nat_digits [of n] s by simp
  then have c: "is_digit c" by simp
  have "length (filter is_digit (c # cs)) = length (c # cs)"
    using dig by (simp add: filter_id_conv)
  then have lim: "\<not> (0 < lim \<and> lim < length (filter is_digit (c # cs)))"
    using assms s by auto
  have "parse_digits cs (digit_val c) = Some (foldl (\<lambda>a c. 10 * a + digit_val c) 0 (c # cs))"
    using dig by (simp add: parse_digits_all_digits)
  also have "\<dots> = Some n" using str_nat_value [of n] s by simp
  finally have "parse_unsigned lim (c # cs) = Some n"
    using c lim by (simp add: parse_unsigned_def)
  moreover have "strip (str_nat n) = c # cs"
    using strip_digits [of "str_nat n"] str_nat_digits [of n] s by simp
  ultimately show ?thesis
    using is_digit_not_sign [OF c] by (simp add: ascii_int_def)
qed

lemma perform_enters_loop:
  assumes "2 \<le> length (argv h)" and "0 < device_count h"
    and "select_gpu_index h = (sel, Inr g)"
  shows "perform h ws =
     (device_listing h @ sel @
      [print_in_color
         (''Address '' @ argv h ! 1 @ '' started to work on GPU '' @ str_int g @ ''.'') yellow] @
      fst (worker_loop ws (argv h ! 1) g),
      snd (worker_loop ws (argv h ! 1) g))"
  using assms by (simp add: perform_def Let_def split: prod.splits)

lemma select_gpu_index_uncaught:
  assumes "2 < length (argv h)" and "py_int h (argv h ! 2) = Inl e" and "\<not> is_ValueError e"
  shows "select_gpu_index h = ([], Inl e)"
  using assms by (simp add: select_gpu_index_def requested_gpu_index_def)

lemma ascii_reader_1: "ascii_reader 4300 ''1'' = Inr 1"
  by code_simp

lemma ascii_reader_2: "ascii_reader 4300 ''2'' = Inr 2"
  by code_simp

lemma ascii_reader_minus_1: "ascii_reader 4300 ''-1'' = Inr (- 1)"
  by code_simp

lemma ascii_reader_abc:
  "ascii_reader 4300 ''abc'' =
     Inl (Raised ValueError (''invalid literal for int() with base 10: '' @ quote ''abc''))"
  by code_simp

lemma str_int_0: "str_int 0 = ''0''"
  by code_simp

lemma str_int_1: "str_int 1 = ''1''"
  by code_simp

lemma register_particle_trace: "fst (register_particle w addr) = [Post (acquire_request addr)]"
  by (simp add: register_particle_def Let_def split: sum.splits)

lemma execute_trace:
  "fst (execute w task_args g) = [print_in_color ''Starting training...'' blue, Train task_args g]"
  by (simp add: execute_def Let_def split: option.splits)

lemma sleep_trace: "fst (sleep w n) = [Sleep n]"
  by (simp add: sleep_def)

lemma and_then_Inl: "snd m = Inl e \<Longrightarrow> and_then m f = (fst m, Inl e)"
  by (cases m) (simp add: and_then_def)

lemma and_then_Inr:
  "snd m = Inr x \<Longrightarrow> and_then m f = (fst m @ fst (f x), snd (f x))"
  by (cases m) (simp add: and_then_def split: prod.splits)

lemma and_then_say: "and_then (say ev) f = (ev # fst (f ()), snd (f ()))"
  by (simp add: and_then_def say_def split: prod.splits)

lemma cycle_body_raises:
  assumes "raises_at w addr g s e"
  shows "cycle_body w addr g = (trace_until w addr g s, Inl e)"
proof (cases s)
  case Preparing
  with assms have "snd (sleep w 10) = Inl e" by (simp add: sleep_def)
  then show ?thesis using Preparing
    by (simp add: cycle_body_def and_then_say and_then_Inl until_prepared_def sleep_trace)
next
  case Acquiring
  with assms have sl: "snd (sleep w 10) = Inr ()" and r: "snd (register_particle w addr) = Inl e"
    by (simp_all add: sleep_def)
  show ?thesis using Acquiring
    by (simp add: cycle_body_def and_then_say and_then_Inr [OF sl] and_then_Inl [OF r]
        until_prepared_def until_acquired_def sleep_trace)
next
  case Executing
  with assms obtain task_args where sl: "snd (sleep w 10) = Inr ()"
    and r: "snd (register_particle w addr) = Inr task_args"
    and x: "snd (execute w task_args g) = Inl e"
    by (auto simp: sleep_def split: sum.splits)
  show ?thesis using Executing r
    by (simp add: cycle_body_def and_then_say and_then_Inr [OF sl] and_then_Inr [OF r]
        and_then_Inl [OF x] until_prepared_def until_acquired_def until_executed_def sleep_trace)
next
  case Submitting
  with assms obtain task_args where sl: "snd (sleep w 10) = Inr ()"
    and r: "snd (register_particle w addr) = Inr task_args"
    and x: "snd (execute w task_args g) = Inr ()"
    and c: "snd (complete_task w addr) = Inl e"
    by (auto simp: sleep_def split: sum.splits)
  show ?thesis using Submitting r
    by (simp add: cycle_body_def and_then_say and_then_Inr [OF sl] and_then_Inr [OF r]
        and_then_Inr [OF x] and_then_Inl [OF c] until_prepared_def until_acquired_def
        until_executed_def until_submitted_def sleep_trace)
qed

lemma not_error_report_yellow: "\<not> is_error_report (print_in_color text yellow)"
  by (simp add: print_in_color_def yellow_def red_def ESC_def)

lemma not_error_report_green: "\<not> is_error_report (print_in_color text green)"
  by (simp add: print_in_color_def green_def red_def ESC_def)

lemma not_error_report_blue: "\<not> is_error_report (print_in_color text blue)"
  by (simp add: print_in_color_def blue_def red_def ESC_def)

lemma is_error_report_error_report: "is_error_report (error_report e)"
  by (simp add: error_report_def print_in_color_def red_def ESC_def)

lemma complete_task_no_error_report: "filter is_error_report (fst (complete_task w a)) = []"
  unfolding complete_task_trace_cases by (simp split: sum.splits)

lemma trace_until_no_error_report: "filter is_error_report (trace_until w addr g s) = []"
  by (cases s)
    (simp_all add: until_prepared_def until_acquired_def until_executed_def until_submitted_def
      register_particle_trace execute_trace complete_task_no_error_report
      not_error_report_yellow not_error_report_green not_error_report_blue split: sum.splits)

lemma cycle_starts_preparing: "take 2 (fst (cycle w addr g)) = until_prepared"
proof -
  have "\<exists>rest r. cycle_body w addr g = (print_in_color ''Preparing'' yellow # Sleep 10 # rest, r)"
    by (cases "snd (sleep w 10)")
      (simp_all add: cycle_body_def and_then_say and_then_Inl and_then_Inr sleep_trace)
  then show ?thesis
    by (auto simp: cycle_def until_prepared_def split: sum.splits)
qed

lemma worker_loop_append:
  "worker_loop (xs @ ys) addr g =
     (if snd (worker_loop xs addr g) = Running
      then (fst (worker_loop xs addr g) @ fst (worker_loop ys addr g), snd (worker_loop ys addr g))
      else worker_loop xs addr g)"
  by (induction xs) (auto split: prod.splits option.splits)

lemma worker_loop_not_Returned: "snd (worker_loop ws addr g) \<noteq> Returned"
  by (induction ws) (auto split: prod.splits option.splits)

lemma cycle_caught:
  assumes "raises_at w addr g s e" and "is_Exception e"
  shows "cycle w addr g = (trace_until w addr g s @ [error_report e], None)"
  using cycle_body_raises [OF assms(1)] assms(2) by (simp add: cycle_def)

lemma cycle_uncaught:
  assumes "raises_at w addr g s e" and "\<not> is_Exception e"
  shows "cycle w addr g = (trace_until w addr g s, Some e)"
  using cycle_body_raises [OF assms(1)] assms(2) by (simp add: cycle_def)

lemma complete_task_posts: "length (filter is_Post (fst (complete_task w a))) \<le> 1"
  unfolding complete_task_trace_cases by (simp split: sum.splits)

lemma raises_acquire_500:
  "raises_at world_acquire_500 ''0xABC'' 0 Acquiring
     (Raised Exception ''Failed to init particle: Try later.'')"
  by (simp add: world_acquire_500_def world_ok_def register_particle_def acquire_request_def
      respond_def)

lemma raises_training_fails:
  "raises_at world_training_fails ''0xABC'' 0 Executing (Raised RuntimeError ''CUDA out of memory'')"
  by (simp add: world_training_fails_def world_ok_def register_particle_def acquire_request_def
      coordinator_ok_def respond_def execute_def)

lemma raises_submit_503:
  "raises_at world_submit_503 ''0xABC'' 0 Submitting
     (Raised Exception ''Failed to complete task: Try later.'')"
  by (simp add: world_submit_503_def world_ok_def register_particle_def acquire_request_def
      coordinator_ok_def respond_def execute_def complete_task_def file_at_def
      submit_request_def)

lemma raises_interrupted:
  "raises_at world_interrupted ''0xABC'' 0 Executing (Raised KeyboardInterrupt [])"
  by (simp add: world_interrupted_def world_ok_def register_particle_def acquire_request_def
      coordinator_ok_def respond_def execute_def)

lemma and_then_ignore_cong:
  assumes "fst m = fst m'" and "\<And>e. (snd m = Inl e) = (snd m' = Inl e)"
  shows "and_then m (\<lambda>_. k) = and_then m' (\<lambda>_. k)"
proof (cases "snd m")
  case (Inl e)
  with assms(2) [of e] have "snd m' = Inl e" by simp
  with Inl assms(1) show ?thesis by (simp add: and_then_Inl)
next
  case (Inr x)
  have "\<exists>y. snd m' = Inr y"
  proof (cases "snd m'")
    case (Inl e)
    with assms(2) [of e] Inr show ?thesis by simp
  next
    case (Inr y)
    then show ?thesis by simp
  qed
  then obtain y where "snd m' = Inr y" by blast
  with Inr assms(1) show ?thesis by (simp add: and_then_Inr)
qed

lemma register_particle_post_upd:
  "is_PostFiles q \<Longrightarrow>
     register_particle (w\<lparr>post := (post w)(q := x)\<rparr>) addr = register_particle w addr"
  by (cases q) (simp_all add: register_particle_def acquire_request_def)

lemma execute_post_upd:
  "execute (w\<lparr>post := p\<rparr>) task_args g = execute w task_args g"
  by (simp add: execute_def)

lemma sleep_post_upd: "sleep (w\<lparr>post := p\<rparr>) n = sleep w n"
  by (simp add: sleep_def)

lemma complete_task_post_upd:
  assumes "post w q = Inr r1" and "status_code r1 = 200" and "json_result r1 = Inr a1"
    and "status_code r2 = 200" and "json_result r2 = Inr a2"
  shows "fst (complete_task (w\<lparr>post := (post w)(q := Inr r2)\<rparr>) addr) = fst (complete_task w addr)"
    and "(snd (complete_task (w\<lparr>post := (post w)(q := Inr r2)\<rparr>) addr) = Inl e) =
         (snd (complete_task w addr) = Inl e)"
  using assms by (auto simp: complete_task_def Let_def split: sum.splits)

lemma cycle_body_post_upd:
  assumes "is_PostFiles q" and "post w q = Inr r1" and "status_code r1 = 200"
    and "json_result r1 = Inr a1" and "status_code r2 = 200" and "json_result r2 = Inr a2"
  shows "cycle_body (w\<lparr>post := (post w)(q := Inr r2)\<rparr>) addr g = cycle_body w addr g"
proof -
  let ?w' = "w\<lparr>post := (post w)(q := Inr r2)\<rparr>"
  have "and_then (complete_task ?w' addr)
          (\<lambda>_. say (print_in_color (''Address '' @ addr @ '' completed the task. '') green)) =
        and_then (complete_task w addr)
          (\<lambda>_. say (print_in_color (''Address '' @ addr @ '' completed the task. '') green))"
    by (rule and_then_ignore_cong)
      (simp_all add: complete_task_post_upd [OF assms(2-6)])
  then show ?thesis
    by (simp add: cycle_body_def register_particle_post_upd [OF assms(1)] execute_post_upd
        sleep_post_upd)
qed

lemma worker_loop_cycle_cong:
  assumes "cycle w' addr g = cycle w addr g"
  shows "worker_loop (pre @ w' # ws) addr g = worker_loop (pre @ w # ws) addr g"
  using assms by (simp add: worker_loop_append)

lemma perform_worker_loop_cong:
  assumes "\<And>addr g. worker_loop ws' addr g = worker_loop ws addr g"
  shows "perform h ws' = perform h ws"
  unfolding perform_def assms ..

lemma example_submit_request_post:
  "is_PostFiles example_submit_request
   \<and> post world_ok example_submit_request =
       Inr \<lparr>status_code = 200, json_result = Inr (JObj [(''status'', JStr ''ok'')])\<rparr>"
  by (simp add: example_submit_request_def submit_request_def world_ok_def coordinator_ok_def
      respond_def)

lemma world_ok_files:
  "fs_open world_ok config_path = Inr \<lparr>file_path = config_path, file_bytes = []\<rparr>
   \<and> fs_open world_ok training_args_path =
       Inr \<lparr>file_path = training_args_path, file_bytes = []\<rparr>"
  by (simp add: world_ok_def file_at_def)

subsection \<open>The coordinator client\<close>

text \<open>
  C2. For a response to \<open>register_particle\<close>: when the status is 200 and the parsed
  body is an object with an \<open>args\<close> member, the operation returns exactly that
  member; when the status is not 200 it raises the \<open>Exception\<close> of the source
  (the coordinator is unavailable) and returns no task. Either way one request is sent.
\<close>

theorem register_particle_result:
  "(post w (acquire_request addr) = Inr r \<and> status_code r = 200 \<and>
    json_result r = Inr (JObj kvs) \<and> map_of kvs ''args'' = Some a
      \<longrightarrow> register_particle w addr = ([Post (acquire_request addr)], Inr a))
   \<and> (post w (acquire_request addr) = Inr r \<and> status_code r \<noteq> 200
      \<longrightarrow> register_particle w addr =
            ([Post (acquire_request addr)],
             Inl (Raised Exception ''Failed to init particle: Try later.'')))"
  by (simp add: register_particle_def)

theorem register_particle_result_witness:
  "post world_ok (acquire_request ''0xABC'') =
     Inr \<lparr>status_code = 200, json_result = Inr (JObj [(''args'', example_args)])\<rparr>
   \<and> register_particle world_ok ''0xABC'' =
       ([Post (acquire_request ''0xABC'')], Inr example_args)
   \<and> post world_acquire_500 (acquire_request ''0xABC'') =
       Inr \<lparr>status_code = 500, json_result = Inr JNull\<rparr>
   \<and> register_particle world_acquire_500 ''0xABC'' =
       ([Post (acquire_request ''0xABC'')],
        Inl (Raised Exception ''Failed to init particle: Try later.''))"
proof -
  have ok: "post world_ok (acquire_request ''0xABC'') =
      Inr \<lparr>status_code = 200, json_result = Inr (JObj [(''args'', example_args)])\<rparr>"
    by (simp add: world_ok_def coordinator_ok_def respond_def acquire_request_def)
  have bad: "post world_acquire_500 (acquire_request ''0xABC'') =
      Inr \<lparr>status_code = 500, json_result = Inr JNull\<rparr>"
    by (simp add: world_acquire_500_def world_ok_def respond_def acquire_request_def)
  from register_particle_result
    [of world_ok "''0xABC''"
        "\<lparr>status_code = 200, json_result = Inr (JObj [(''args'', example_args)])\<rparr>"
        "[(''args'', example_args)]" example_args]
    ok
  have a: "register_particle world_ok ''0xABC'' =
      ([Post (acquire_request ''0xABC'')], Inr example_args)"
    by simp
  from register_particle_result
    [of world_acquire_500 "''0xABC''" "\<lparr>status_code = 500, json_result = Inr JNull\<rparr>"]
    bad
  have b: "register_particle world_acquire_500 ''0xABC'' =
       ([Post (acquire_request ''0xABC'')],
        Inl (Raised Exception ''Failed to init particle: Try later.''))"
    by simp
  from ok bad a b show ?thesis by simp
qed

text \<open>
  C8. When the configuration file does not open, \<open>complete_task\<close> raises after that
  one attempt; when the training-arguments file does not open, it raises after the two
  attempts; in both cases nothing has been posted. A request appears in the trace only
  when both files opened.
\<close>

theorem complete_task_open_failure:
  "(fs_open w config_path = Inl e \<longrightarrow>
      complete_task w a = ([Open config_path], Inl e))
   \<and> (fs_open w config_path = Inr f1 \<and> fs_open w training_args_path = Inl e \<longrightarrow>
      complete_task w a = ([Open config_path, Open training_args_path], Inl e))
   \<and> (filter is_Post (fst (complete_task w a)) \<noteq> [] \<longrightarrow>
      (\<exists>f1 f2. fs_open w config_path = Inr f1 \<and> fs_open w training_args_path = Inr f2))"
  by (auto simp: complete_task_def Let_def split: sum.splits)

theorem complete_task_open_failure_witness:
  "fs_open world_no_config config_path = Inl (Raised OSError ''No such file or directory'')
   \<and> complete_task world_no_config ''0xABC'' =
       ([Open config_path], Inl (Raised OSError ''No such file or directory''))
   \<and> fs_open world_no_training_args config_path = file_at config_path
   \<and> fs_open world_no_training_args training_args_path =
       Inl (Raised OSError ''No such file or directory'')
   \<and> complete_task world_no_training_args ''0xABC'' =
       ([Open config_path, Open training_args_path],
        Inl (Raised OSError ''No such file or directory''))"
proof -
  have h1: "fs_open world_no_config config_path =
      Inl (Raised OSError ''No such file or directory'')"
    by (simp add: world_no_config_def world_ok_def)
  have h2: "fs_open world_no_training_args config_path = file_at config_path"
    using paths_differ by (simp add: world_no_training_args_def world_ok_def)
  have h3: "fs_open world_no_training_args training_args_path =
       Inl (Raised OSError ''No such file or directory'')"
    by (simp add: world_no_training_args_def world_ok_def)
  have c1: "complete_task world_no_config ''0xABC'' =
       ([Open config_path], Inl (Raised OSError ''No such file or directory''))"
    using complete_task_open_failure [of world_no_config _ "''0xABC''"] h1 by simp
  have c2: "complete_task world_no_training_args ''0xABC'' =
       ([Open config_path, Open training_args_path],
        Inl (Raised OSError ''No such file or directory''))"
    using complete_task_open_failure
      [of world_no_training_args "Raised OSError ''No such file or directory''" "''0xABC''"
          "\<lparr>file_path = config_path, file_bytes = []\<rparr>"]
      h2 h3
    by (simp add: file_at_def)
  from h1 h2 h3 c1 c2 show ?thesis by simp
qed

text \<open>
  C4. The claim is that every invocation opens the two artifact files and sends one
  request. When the configuration file does not open, \<open>complete_task\<close> stops
  after that one attempt: one \<open>open\<close>, no request.
\<close>

theorem complete_task_without_config_sends_nothing:
  "fs_open world_no_config ''my_model/config.json'' =
     Inl (Raised OSError ''No such file or directory'')
   \<and> fst (complete_task world_no_config ''0xABC'') = [Open ''my_model/config.json'']
   \<and> filter is_Post (fst (complete_task world_no_config ''0xABC'')) = []"
  by (simp add: complete_task_def world_no_config_def world_ok_def config_path_def)

text \<open>
  C4, as the code has it. When both artifact files open, \<open>complete_task\<close> opens the configuration file
  and the training-arguments file, in that order, and posts one multipart request whose
  parts are exactly \<open>file1\<close> and \<open>file2\<close> (the two files) and \<open>r\<close> (the
  JSON encoding of the address, with content type \<open>application/json\<close>). On every
  path it opens no other file, and it posts at most once.
\<close>

theorem complete_task_request:
  "(fs_open w config_path = Inr f1 \<and> fs_open w training_args_path = Inr f2 \<longrightarrow>
      fst (complete_task w a) =
        [Open config_path, Open training_args_path,
         Post (PostFiles (node_url @ ''/complete_task'') 60
           [(''file1'', FilePart f1), (''file2'', FilePart f2),
            (''r'', TuplePart None (json_dumps (JObj [(''address'', JStr a)]))
                     ''application/json'')])])
   \<and> (filter is_Open (fst (complete_task w a)) = [Open config_path] \<or>
       filter is_Open (fst (complete_task w a)) = [Open config_path, Open training_args_path])
   \<and> length (filter is_Post (fst (complete_task w a))) \<le> 1"
proof (intro conjI impI)
  assume "fs_open w config_path = Inr f1 \<and> fs_open w training_args_path = Inr f2"
  then show "fst (complete_task w a) =
        [Open config_path, Open training_args_path,
         Post (PostFiles (node_url @ ''/complete_task'') 60
           [(''file1'', FilePart f1), (''file2'', FilePart f2),
            (''r'', TuplePart None (json_dumps (JObj [(''address'', JStr a)]))
                     ''application/json'')])]"
    by (simp add: complete_task_trace_cases submit_request_def)
next
  show "filter is_Open (fst (complete_task w a)) = [Open config_path] \<or>
       filter is_Open (fst (complete_task w a)) = [Open config_path, Open training_args_path]"
    unfolding complete_task_trace_cases by (simp split: sum.splits)
next
  show "length (filter is_Post (fst (complete_task w a))) \<le> 1"
    unfolding complete_task_trace_cases by (simp split: sum.splits)
qed

theorem complete_task_request_witness:
  "fs_open world_ok config_path = Inr \<lparr>file_path = config_path, file_bytes = []\<rparr>
   \<and> fs_open world_ok training_args_path = Inr \<lparr>file_path = training_args_path, file_bytes = []\<rparr>
   \<and> fst (complete_task world_ok ''0xABC'') =
        [Open config_path, Open training_args_path,
         Post (PostFiles (node_url @ ''/complete_task'') 60
           [(''file1'', FilePart \<lparr>file_path = config_path, file_bytes = []\<rparr>),
            (''file2'', FilePart \<lparr>file_path = training_args_path, file_bytes = []\<rparr>),
            (''r'', TuplePart None (json_dumps (JObj [(''address'', JStr ''0xABC'')]))
                     ''application/json'')])]"
proof -
  have h1: "fs_open world_ok config_path = Inr \<lparr>file_path = config_path, file_bytes = []\<rparr>"
    by (simp add: world_ok_def file_at_def)
  have h2: "fs_open world_ok training_args_path =
      Inr \<lparr>file_path = training_args_path, file_bytes = []\<rparr>"
    by (simp add: world_ok_def file_at_def)
  from complete_task_request
    [of world_ok "\<lparr>file_path = config_path, file_bytes = []\<rparr>"
        "\<lparr>file_path = training_args_path, file_bytes = []\<rparr>" "''0xABC''"]
    h1 h2
  show ?thesis by simp
qed

text \<open>
  C3. The claim is that the handles opened by \<open>complete_task\<close> are closed on every
  exit path. The source never calls \<open>close\<close> and uses no \<open>with\<close> block: when
  the request times out, and when it succeeds, \<open>complete_task\<close> ends with both
  files opened and neither closed.
\<close>

theorem complete_task_leaves_files_open:
  "snd (complete_task world_submit_timeout ''0xABC'') = Inl (Raised RequestException ''Read timed out.'')
   \<and> open_handles world_submit_timeout (fst (complete_task world_submit_timeout ''0xABC'')) [] =
       [config_path, training_args_path]
   \<and> snd (complete_task world_ok ''0xABC'') = Inr (JObj [(''status'', JStr ''ok'')])
   \<and> open_handles world_ok (fst (complete_task world_ok ''0xABC'')) [] =
       [config_path, training_args_path]"
  by (simp add: complete_task_def world_submit_timeout_def world_ok_def file_at_def
      submit_request_def coordinator_ok_def respond_def)

text \<open>
  C3, as the code has it: \<open>complete_task\<close> performs no close on any exit path;
  whether it returns or raises, every file that opened is left unclosed by it.
\<close>

theorem complete_task_never_closes:
  "filter is_Close (fst (complete_task w a)) = []
   \<and> open_handles w (fst (complete_task w a)) [] =
       (case fs_open w config_path of
          Inl _ \<Rightarrow> []
        | Inr _ \<Rightarrow>
            (case fs_open w training_args_path of
               Inl _ \<Rightarrow> [config_path]
             | Inr _ \<Rightarrow> [config_path, training_args_path]))"
  by (simp add: complete_task_def Let_def split: sum.splits)

theorem complete_task_never_closes_witness:
  "filter is_Close (fst (complete_task world_no_training_args ''0xABC'')) = []
   \<and> open_handles world_no_training_args (fst (complete_task world_no_training_args ''0xABC'')) [] =
       [config_path]"
proof -
  have h2: "fs_open world_no_training_args config_path = file_at config_path"
    using paths_differ by (simp add: world_no_training_args_def world_ok_def)
  have h3: "fs_open world_no_training_args training_args_path =
       Inl (Raised OSError ''No such file or directory'')"
    by (simp add: world_no_training_args_def world_ok_def)
  from complete_task_never_closes [of world_no_training_args "''0xABC''"] h2 h3
  show ?thesis by (simp add: file_at_def)
qed

subsection \<open>Start-up\<close>

text \<open>
  C7. When the address argument is missing, or when no CUDA device is found (whatever
  the other arguments are), \<open>perform\<close> prints one line and returns: the trace holds
  no pause, no request, no file access and no training, for any worlds offered.
\<close>

theorem perform_startup_exit:
  "(length (argv h) < 2 \<longrightarrow>
      perform h ws = ([print_in_color ''Error: Address not provided.'' red], Returned))
   \<and> (2 \<le> length (argv h) \<and> device_count h = 0 \<longrightarrow>
      perform h ws = ([print_in_color ''No CUDA devices available. exiting.'' yellow], Returned))
   \<and> (length (argv h) < 2 \<or> device_count h = 0 \<longrightarrow>
      snd (perform h ws) = Returned \<and> filter (\<lambda>ev. \<not> is_Print ev) (fst (perform h ws)) = [])"
  by (auto simp: perform_def Let_def print_in_color_def)

theorem perform_startup_exit_witness:
  "perform (host_example [''execute.py''] 2) [world_ok] =
     ([print_in_color ''Error: Address not provided.'' red], Returned)
   \<and> perform (host_example [''execute.py'', ''0xABC'', ''0''] 0) [world_ok] =
     ([print_in_color ''No CUDA devices available. exiting.'' yellow], Returned)"
proof -
  have a: "length (argv (host_example [''execute.py''] 2)) < 2"
    by (simp add: host_example_def)
  have b: "2 \<le> length (argv (host_example [''execute.py'', ''0xABC'', ''0''] 0))
      \<and> device_count (host_example [''execute.py'', ''0xABC'', ''0''] 0) = 0"
    by (simp add: host_example_def)
  from perform_startup_exit [of "host_example [''execute.py''] 2" "[world_ok]"] a
    perform_startup_exit [of "host_example [''execute.py'', ''0xABC'', ''0''] 0" "[world_ok]"] b
  show ?thesis by simp
qed

subsection \<open>The device selector\<close>

text \<open>
  C5. With at least one device, when \<open>int\<close> reads the second argument as an integer
  \<open>i\<close> with \<open>0 \<le> i\<close> and \<open>i\<close> below the device count, the selector yields
  \<open>i\<close> itself and prints nothing, and \<open>perform\<close> announces device \<open>i\<close> and
  runs its loop on device \<open>i\<close>.
\<close>

theorem select_gpu_index_valid:
  "0 < device_count h \<and> 2 < length (argv h) \<and>
   py_int h (argv h ! 2) = Inr i \<and> 0 \<le> i \<and> i < int (device_count h)
   \<longrightarrow> select_gpu_index h = ([], Inr i) \<and>
       perform h ws =
         (device_listing h @
          [Print ([CHR 0x1B] @ ''[33mAddress '' @ argv h ! 1 @ '' started to work on GPU '' @
                  str_int i @ ''.'' @ [CHR 0x1B] @ ''[0m'')] @
          fst (worker_loop ws (argv h ! 1) i),
          snd (worker_loop ws (argv h ! 1) i))"
proof (intro impI)
  assume a: "0 < device_count h \<and> 2 < length (argv h) \<and>
   py_int h (argv h ! 2) = Inr i \<and> 0 \<le> i \<and> i < int (device_count h)"
  then have sel: "select_gpu_index h = ([], Inr i)"
    by (simp add: select_gpu_index_def requested_gpu_index_def)
  from a have "2 \<le> length (argv h)" and "0 < device_count h" by simp_all
  from perform_enters_loop [OF this sel, of ws] sel
  show "select_gpu_index h = ([], Inr i) \<and>
       perform h ws =
         (device_listing h @
          [Print ([CHR 0x1B] @ ''[33mAddress '' @ argv h ! 1 @ '' started to work on GPU '' @
                  str_int i @ ''.'' @ [CHR 0x1B] @ ''[0m'')] @
          fst (worker_loop ws (argv h ! 1) i),
          snd (worker_loop ws (argv h ! 1) i))"
    by (simp add: print_in_color_def yellow_def ESC_def END_COLOR_def)
qed

theorem select_gpu_index_valid_witness:
  "0 < device_count (host_example [''execute.py'', ''0xABC'', ''1''] 2)
   \<and> py_int (host_example [''execute.py'', ''0xABC'', ''1''] 2) ''1'' = Inr 1
   \<and> select_gpu_index (host_example [''execute.py'', ''0xABC'', ''1''] 2) = ([], Inr 1)
   \<and> perform (host_example [''execute.py'', ''0xABC'', ''1''] 2) [] =
       (device_listing (host_example [''execute.py'', ''0xABC'', ''1''] 2) @
        [Print ([CHR 0x1B] @ ''[33mAddress 0xABC started to work on GPU 1.'' @
                [CHR 0x1B] @ ''[0m'')],
        Running)"
proof -
  let ?h = "host_example [''execute.py'', ''0xABC'', ''1''] 2"
  have p: "py_int ?h ''1'' = Inr 1"
    using ascii_reader_1 by (simp add: host_example_def)
  have hyp: "0 < device_count ?h \<and> 2 < length (argv ?h) \<and>
     py_int ?h (argv ?h ! 2) = Inr 1 \<and> (0::int) \<le> 1 \<and> 1 < int (device_count ?h)"
    using p by (simp add: host_example_def)
  from select_gpu_index_valid [of ?h 1 "[]"] hyp
  have "select_gpu_index ?h = ([], Inr 1) \<and>
       perform ?h [] =
         (device_listing ?h @
          [Print ([CHR 0x1B] @ ''[33mAddress '' @ argv ?h ! 1 @ '' started to work on GPU '' @
                  str_int 1 @ ''.'' @ [CHR 0x1B] @ ''[0m'')] @
          fst (worker_loop [] (argv ?h ! 1) 1),
          snd (worker_loop [] (argv ?h ! 1) 1))"
    by blast
  then show ?thesis using p str_int_1 by (simp add: host_example_def)
qed

text \<open>
  C6. With at least one device, when \<open>int\<close> refuses the second argument with a
  \<open>ValueError\<close> (the text is not a numeral), or reads it as an integer that is
  negative or not below the device count, the selector prints the one warning line,
  in red, that names the argument, and yields 0. No exception leaves the selection:
  \<open>perform\<close> announces device 0 and runs its loop on device 0.
\<close>

theorem select_gpu_index_invalid:
  "0 < device_count h \<and> 2 < length (argv h) \<and>
   (case py_int h (argv h ! 2) of
      Inl e \<Rightarrow> is_ValueError e
    | Inr i \<Rightarrow> i < 0 \<or> int (device_count h) \<le> i)
   \<longrightarrow> select_gpu_index h =
         ([Print ([CHR 0x1B] @ ''[31mError: Invalid GPU index '' @ [CHR 0x27] @ argv h ! 2 @
                  [CHR 0x27] @ ''. Using default (0).'' @ [CHR 0x1B] @ ''[0m'')],
          Inr 0) \<and>
       perform h ws =
         (device_listing h @
          [Print ([CHR 0x1B] @ ''[31mError: Invalid GPU index '' @ [CHR 0x27] @ argv h ! 2 @
                  [CHR 0x27] @ ''. Using default (0).'' @ [CHR 0x1B] @ ''[0m''),
           Print ([CHR 0x1B] @ ''[33mAddress '' @ argv h ! 1 @
                  '' started to work on GPU 0.'' @ [CHR 0x1B] @ ''[0m'')] @
          fst (worker_loop ws (argv h ! 1) 0),
          snd (worker_loop ws (argv h ! 1) 0))"
proof (intro impI)
  assume a: "0 < device_count h \<and> 2 < length (argv h) \<and>
   (case py_int h (argv h ! 2) of
      Inl e \<Rightarrow> is_ValueError e
    | Inr i \<Rightarrow> i < 0 \<or> int (device_count h) \<le> i)"
  have "\<exists>e. requested_gpu_index h = Inl e \<and> is_ValueError e"
  proof (cases "py_int h (argv h ! 2)")
    case (Inl e)
    with a show ?thesis by (simp add: requested_gpu_index_def)
  next
    case (Inr i)
    with a show ?thesis by (auto simp: requested_gpu_index_def)
  qed
  then obtain e where "requested_gpu_index h = Inl e" and "is_ValueError e" by blast
  with a have sel: "select_gpu_index h =
      ([print_in_color
          (''Error: Invalid GPU index '' @ quote (argv h ! 2) @ ''. Using default (0).'') red],
       Inr 0)"
    by (simp add: select_gpu_index_def)
  from a have "2 \<le> length (argv h)" and "0 < device_count h" by simp_all
  from perform_enters_loop [OF this sel, of ws] sel
  show "select_gpu_index h =
         ([Print ([CHR 0x1B] @ ''[31mError: Invalid GPU index '' @ [CHR 0x27] @ argv h ! 2 @
                  [CHR 0x27] @ ''. Using default (0).'' @ [CHR 0x1B] @ ''[0m'')],
          Inr 0) \<and>
       perform h ws =
         (device_listing h @
          [Print ([CHR 0x1B] @ ''[31mError: Invalid GPU index '' @ [CHR 0x27] @ argv h ! 2 @
                  [CHR 0x27] @ ''. Using default (0).'' @ [CHR 0x1B] @ ''[0m''),
           Print ([CHR 0x1B] @ ''[33mAddress '' @ argv h ! 1 @
                  '' started to work on GPU 0.'' @ [CHR 0x1B] @ ''[0m'')] @
          fst (worker_loop ws (argv h ! 1) 0),
          snd (worker_loop ws (argv h ! 1) 0))"
    by (simp add: print_in_color_def red_def yellow_def ESC_def END_COLOR_def quote_def
        str_int_0)
qed

theorem select_gpu_index_invalid_witness:
  "is_ValueError (Raised ValueError (''invalid literal for int() with base 10: '' @ quote ''abc''))
   \<and> py_int (host_example [''execute.py'', ''0xABC'', ''abc''] 2) ''abc'' =
       Inl (Raised ValueError (''invalid literal for int() with base 10: '' @ quote ''abc''))
   \<and> select_gpu_index (host_example [''execute.py'', ''0xABC'', ''abc''] 2) =
       ([Print ([CHR 0x1B] @ ''[31mError: Invalid GPU index '' @ [CHR 0x27] @ ''abc'' @
                [CHR 0x27] @ ''. Using default (0).'' @ [CHR 0x1B] @ ''[0m'')],
        Inr 0)
   \<and> py_int (host_example [''execute.py'', ''0xABC'', ''2''] 2) ''2'' = Inr 2
   \<and> select_gpu_index (host_example [''execute.py'', ''0xABC'', ''2''] 2) =
       ([Print ([CHR 0x1B] @ ''[31mError: Invalid GPU index '' @ [CHR 0x27] @ ''2'' @
                [CHR 0x27] @ ''. Using default (0).'' @ [CHR 0x1B] @ ''[0m'')],
        Inr 0)
   \<and> py_int (host_example [''execute.py'', ''0xABC'', ''-1''] 2) ''-1'' = Inr (- 1)
   \<and> select_gpu_index (host_example [''execute.py'', ''0xABC'', ''-1''] 2) =
       ([Print ([CHR 0x1B] @ ''[31mError: Invalid GPU index '' @ [CHR 0x27] @ ''-1'' @
                [CHR 0x27] @ ''. Using default (0).'' @ [CHR 0x1B] @ ''[0m'')],
        Inr 0)
   \<and> snd (perform (host_example [''execute.py'', ''0xABC'', ''abc''] 2) []) = Running"
proof -
  let ?a = "host_example [''execute.py'', ''0xABC'', ''abc''] 2"
  let ?b = "host_example [''execute.py'', ''0xABC'', ''2''] 2"
  let ?c = "host_example [''execute.py'', ''0xABC'', ''-1''] 2"
  have v: "is_ValueError
      (Raised ValueError (''invalid literal for int() with base 10: '' @ quote ''abc''))"
    by simp
  have pa: "py_int ?a ''abc'' =
      Inl (Raised ValueError (''invalid literal for int() with base 10: '' @ quote ''abc''))"
    using ascii_reader_abc by (simp add: host_example_def)
  have pb: "py_int ?b ''2'' = Inr 2"
    using ascii_reader_2 by (simp add: host_example_def)
  have pc: "py_int ?c ''-1'' = Inr (- 1)"
    using ascii_reader_minus_1 by (simp add: host_example_def)
  have ha: "0 < device_count ?a \<and> 2 < length (argv ?a) \<and>
     (case py_int ?a (argv ?a ! 2) of
        Inl e \<Rightarrow> is_ValueError e
      | Inr i \<Rightarrow> i < 0 \<or> int (device_count ?a) \<le> i)"
    using pa by (simp add: host_example_def)
  have hb: "0 < device_count ?b \<and> 2 < length (argv ?b) \<and>
     (case py_int ?b (argv ?b ! 2) of
        Inl e \<Rightarrow> is_ValueError e
      | Inr i \<Rightarrow> i < 0 \<or> int (device_count ?b) \<le> i)"
    using pb by (simp add: host_example_def)
  have hc: "0 < device_count ?c \<and> 2 < length (argv ?c) \<and>
     (case py_int ?c (argv ?c ! 2) of
        Inl e \<Rightarrow> is_ValueError e
      | Inr i \<Rightarrow> i < 0 \<or> int (device_count ?c) \<le> i)"
    using pc by (simp add: host_example_def)
  have arg: "argv ?a ! 2 = ''abc''" "argv ?b ! 2 = ''2''" "argv ?c ! 2 = ''-1''"
    by (simp_all add: host_example_def)
  note ra = select_gpu_index_invalid [of ?a "[]", THEN mp, OF ha]
  note rb = select_gpu_index_invalid [of ?b "[]", THEN mp, OF hb]
  note rc = select_gpu_index_invalid [of ?c "[]", THEN mp, OF hc]
  note a = ra [THEN conjunct1, unfolded arg]
  note b = rb [THEN conjunct1, unfolded arg]
  note c = rc [THEN conjunct1, unfolded arg]
  have "snd (perform ?a []) = snd (worker_loop [] (argv ?a ! 1) 0)"
    by (subst ra [THEN conjunct2]) (rule snd_conv)
  then have r: "snd (perform ?a []) = Running"
    by simp
  show ?thesis
    using v pa a pb b pc c r by (intro conjI)
qed

subsection \<open>The worker loop\<close>

text \<open>
  C1. When the call of a stage raises an exception of the \<open>Exception\<close> hierarchy,
  the cycle consists of what was done up to that call followed by one error report, and
  nothing else: exactly one error report is printed, the later stages are not run (after
  a failed acquisition there is no training, no file access and no request but the
  acquisition itself), no stage is run twice, and the loop goes on to the next cycle,
  which starts with the \<open>Preparing\<close> line and the pause. The run does not end.
\<close>

theorem cycle_failure_isolated:
  "raises_at w addr g s e \<and> is_Exception e \<longrightarrow>
     cycle w addr g = (trace_until w addr g s @ [error_report e], None)
     \<and> length (filter is_error_report (fst (cycle w addr g))) = 1
     \<and> worker_loop (w # ws) addr g =
         (fst (cycle w addr g) @ fst (worker_loop ws addr g), snd (worker_loop ws addr g))
     \<and> snd (worker_loop ws addr g) \<noteq> Returned
     \<and> take 2 (fst (cycle w' addr g)) = [print_in_color ''Preparing'' yellow, Sleep 10]
     \<and> (s = Acquiring \<longrightarrow>
          filter is_Post (fst (cycle w addr g)) = [Post (acquire_request addr)]
          \<and> filter is_Train (fst (cycle w addr g)) = []
          \<and> filter is_Open (fst (cycle w addr g)) = [])
     \<and> (s = Executing \<longrightarrow>
          filter is_Post (fst (cycle w addr g)) = [Post (acquire_request addr)]
          \<and> length (filter is_Train (fst (cycle w addr g))) = 1
          \<and> filter is_Open (fst (cycle w addr g)) = [])
     \<and> (s = Submitting \<longrightarrow>
          filter is_Post (fst (cycle w addr g)) =
            Post (acquire_request addr) # filter is_Post (fst (complete_task w addr))
          \<and> length (filter is_Post (fst (complete_task w addr))) \<le> 1
          \<and> length (filter is_Train (fst (cycle w addr g))) = 1)"
proof (intro impI)
  assume a: "raises_at w addr g s e \<and> is_Exception e"
  then have c: "cycle w addr g = (trace_until w addr g s @ [error_report e], None)"
    by (simp add: cycle_caught)
  have one: "length (filter is_error_report (fst (cycle w addr g))) = 1"
    by (simp add: c trace_until_no_error_report is_error_report_error_report)
  have loop: "worker_loop (w # ws) addr g =
      (fst (cycle w addr g) @ fst (worker_loop ws addr g), snd (worker_loop ws addr g))"
    by (simp add: c split: prod.splits)
  have nxt: "take 2 (fst (cycle w' addr g)) = [print_in_color ''Preparing'' yellow, Sleep 10]"
    using cycle_starts_preparing [of w' addr g] by (simp add: until_prepared_def)
  have acq: "s = Acquiring \<longrightarrow>
          filter is_Post (fst (cycle w addr g)) = [Post (acquire_request addr)]
          \<and> filter is_Train (fst (cycle w addr g)) = []
          \<and> filter is_Open (fst (cycle w addr g)) = []"
    by (simp add: c until_acquired_def until_prepared_def register_particle_trace
        print_in_color_def error_report_def)
  have exe: "s = Executing \<longrightarrow>
          filter is_Post (fst (cycle w addr g)) = [Post (acquire_request addr)]
          \<and> length (filter is_Train (fst (cycle w addr g))) = 1
          \<and> filter is_Open (fst (cycle w addr g)) = []"
    using a
    by (auto simp: c until_executed_def until_acquired_def until_prepared_def
        register_particle_trace execute_trace print_in_color_def error_report_def
        split: sum.splits)
  have train_sub: "filter is_Train (fst (complete_task w addr)) = []"
    unfolding complete_task_trace_cases by (simp split: sum.splits)
  have sub: "s = Submitting \<longrightarrow>
          filter is_Post (fst (cycle w addr g)) =
            Post (acquire_request addr) # filter is_Post (fst (complete_task w addr))
          \<and> length (filter is_Post (fst (complete_task w addr))) \<le> 1
          \<and> length (filter is_Train (fst (cycle w addr g))) = 1"
    using a complete_task_posts [of w addr] train_sub
    by (auto simp: c until_submitted_def until_executed_def until_acquired_def
        until_prepared_def register_particle_trace execute_trace print_in_color_def
        error_report_def split: sum.splits)
  from c one loop nxt acq exe sub worker_loop_not_Returned [of ws addr g]
  show "cycle w addr g = (trace_until w addr g s @ [error_report e], None)
     \<and> length (filter is_error_report (fst (cycle w addr g))) = 1
     \<and> worker_loop (w # ws) addr g =
         (fst (cycle w addr g) @ fst (worker_loop ws addr g), snd (worker_loop ws addr g))
     \<and> snd (worker_loop ws addr g) \<noteq> Returned
     \<and> take 2 (fst (cycle w' addr g)) = [print_in_color ''Preparing'' yellow, Sleep 10]
     \<and> (s = Acquiring \<longrightarrow>
          filter is_Post (fst (cycle w addr g)) = [Post (acquire_request addr)]
          \<and> filter is_Train (fst (cycle w addr g)) = []
          \<and> filter is_Open (fst (cycle w addr g)) = [])
     \<and> (s = Executing \<longrightarrow>
          filter is_Post (fst (cycle w addr g)) = [Post (acquire_request addr)]
          \<and> length (filter is_Train (fst (cycle w addr g))) = 1
          \<and> filter is_Open (fst (cycle w addr g)) = [])
     \<and> (s = Submitting \<longrightarrow>
          filter is_Post (fst (cycle w addr g)) =
            Post (acquire_request addr) # filter is_Post (fst (complete_task w addr))
          \<and> length (filter is_Post (fst (complete_task w addr))) \<le> 1
          \<and> length (filter is_Train (fst (cycle w addr g))) = 1)"
    by blast
qed

theorem cycle_failure_isolated_witness:
  "raises_at world_acquire_500 ''0xABC'' 0 Acquiring
     (Raised Exception ''Failed to init particle: Try later.'')
   \<and> is_Exception (Raised Exception ''Failed to init particle: Try later.'')
   \<and> cycle world_acquire_500 ''0xABC'' 0 =
       ([print_in_color ''Preparing'' yellow, Sleep 10, Post (acquire_request ''0xABC''),
         error_report (Raised Exception ''Failed to init particle: Try later.'')], None)
   \<and> filter is_Train (fst (cycle world_acquire_500 ''0xABC'' 0)) = []
   \<and> filter is_Open (fst (cycle world_acquire_500 ''0xABC'' 0)) = []
   \<and> worker_loop [world_acquire_500, world_ok] ''0xABC'' 0 =
       (fst (cycle world_acquire_500 ''0xABC'' 0) @ fst (worker_loop [world_ok] ''0xABC'' 0),
        snd (worker_loop [world_ok] ''0xABC'' 0))
   \<and> raises_at world_training_fails ''0xABC'' 0 Executing
       (Raised RuntimeError ''CUDA out of memory'')
   \<and> length (filter is_error_report (fst (cycle world_training_fails ''0xABC'' 0))) = 1
   \<and> filter is_Open (fst (cycle world_training_fails ''0xABC'' 0)) = []
   \<and> raises_at world_submit_503 ''0xABC'' 0 Submitting
       (Raised Exception ''Failed to complete task: Try later.'')
   \<and> length (filter is_error_report (fst (cycle world_submit_503 ''0xABC'' 0))) = 1
   \<and> snd (cycle world_submit_503 ''0xABC'' 0) = None"
proof -
  have e1: "is_Exception (Raised Exception ''Failed to init particle: Try later.'')" by simp
  have e2: "is_Exception (Raised RuntimeError ''CUDA out of memory'')" by simp
  have e3: "is_Exception (Raised Exception ''Failed to complete task: Try later.'')" by simp
  have t1: "trace_until world_acquire_500 ''0xABC'' 0 Acquiring =
      [print_in_color ''Preparing'' yellow, Sleep 10, Post (acquire_request ''0xABC'')]"
    by (simp add: until_acquired_def until_prepared_def register_particle_trace)
  from cycle_failure_isolated
    [of world_acquire_500 "''0xABC''" 0 Acquiring
        "Raised Exception ''Failed to init particle: Try later.''" "[world_ok]" world_ok]
    raises_acquire_500 e1
  have a0: "cycle world_acquire_500 ''0xABC'' 0 =
       (trace_until world_acquire_500 ''0xABC'' 0 Acquiring @
        [error_report (Raised Exception ''Failed to init particle: Try later.'')], None)
     \<and> filter is_Train (fst (cycle world_acquire_500 ''0xABC'' 0)) = []
     \<and> filter is_Open (fst (cycle world_acquire_500 ''0xABC'' 0)) = []
     \<and> worker_loop (world_acquire_500 # [world_ok]) ''0xABC'' 0 =
       (fst (cycle world_acquire_500 ''0xABC'' 0) @ fst (worker_loop [world_ok] ''0xABC'' 0),
        snd (worker_loop [world_ok] ''0xABC'' 0))"
    by blast
  then have a: "cycle world_acquire_500 ''0xABC'' 0 =
       ([print_in_color ''Preparing'' yellow, Sleep 10, Post (acquire_request ''0xABC''),
         error_report (Raised Exception ''Failed to init particle: Try later.'')], None)
     \<and> filter is_Train (fst (cycle world_acquire_500 ''0xABC'' 0)) = []
     \<and> filter is_Open (fst (cycle world_acquire_500 ''0xABC'' 0)) = []
     \<and> worker_loop [world_acquire_500, world_ok] ''0xABC'' 0 =
       (fst (cycle world_acquire_500 ''0xABC'' 0) @ fst (worker_loop [world_ok] ''0xABC'' 0),
        snd (worker_loop [world_ok] ''0xABC'' 0))"
    unfolding t1 by (simp add: print_in_color_def error_report_def del: worker_loop.simps)
  from cycle_failure_isolated
    [of world_training_fails "''0xABC''" 0 Executing
        "Raised RuntimeError ''CUDA out of memory''" "[]" world_ok]
    raises_training_fails e2
  have b: "length (filter is_error_report (fst (cycle world_training_fails ''0xABC'' 0))) = 1
     \<and> filter is_Open (fst (cycle world_training_fails ''0xABC'' 0)) = []"
    by blast
  from cycle_failure_isolated
    [of world_submit_503 "''0xABC''" 0 Submitting
        "Raised Exception ''Failed to complete task: Try later.''" "[]" world_ok]
    raises_submit_503 e3
  have c: "length (filter is_error_report (fst (cycle world_submit_503 ''0xABC'' 0))) = 1
     \<and> snd (cycle world_submit_503 ''0xABC'' 0) = None"
    by (metis snd_conv)
  from a b c raises_acquire_500 raises_training_fails raises_submit_503 e1
  show ?thesis by blast
qed

text \<open>
  C10. When the call of a stage raises an exception that is not of the
  \<open>Exception\<close> hierarchy (\<open>KeyboardInterrupt\<close>, \<open>SystemExit\<close>), the
  \<open>except\<close> clause does not catch it: the cycle stops at that call without an error
  report, no further cycle is run, and the exception leaves the loop and
  \<open>perform\<close>.
\<close>

theorem base_exception_leaves_loop:
  "raises_at w addr g s e \<and> \<not> is_Exception e \<longrightarrow>
     cycle w addr g = (trace_until w addr g s, Some e)
     \<and> filter is_error_report (fst (cycle w addr g)) = []
     \<and> worker_loop (w # ws) addr g = (trace_until w addr g s, Uncaught e)
     \<and> (snd (worker_loop pre addr g) = Running \<longrightarrow>
          worker_loop (pre @ w # ws) addr g =
            (fst (worker_loop pre addr g) @ trace_until w addr g s, Uncaught e))
     \<and> (2 \<le> length (argv h) \<and> 0 < device_count h \<and> addr = argv h ! 1 \<and>
         snd (select_gpu_index h) = Inr g \<longrightarrow>
          snd (perform h (w # ws)) = Uncaught e)"
proof (intro impI)
  assume a: "raises_at w addr g s e \<and> \<not> is_Exception e"
  then have c: "cycle w addr g = (trace_until w addr g s, Some e)"
    by (simp add: cycle_uncaught)
  have n: "filter is_error_report (fst (cycle w addr g)) = []"
    by (simp add: c trace_until_no_error_report)
  have l: "worker_loop (w # ws) addr g = (trace_until w addr g s, Uncaught e)"
    by (simp add: c)
  have p: "snd (worker_loop pre addr g) = Running \<longrightarrow>
          worker_loop (pre @ w # ws) addr g =
            (fst (worker_loop pre addr g) @ trace_until w addr g s, Uncaught e)"
    using l by (simp add: worker_loop_append del: worker_loop.simps)
  have q: "2 \<le> length (argv h) \<and> 0 < device_count h \<and> addr = argv h ! 1 \<and>
         snd (select_gpu_index h) = Inr g \<longrightarrow>
          snd (perform h (w # ws)) = Uncaught e"
  proof (intro impI)
    assume b: "2 \<le> length (argv h) \<and> 0 < device_count h \<and> addr = argv h ! 1 \<and>
         snd (select_gpu_index h) = Inr g"
    then have "select_gpu_index h = (fst (select_gpu_index h), Inr g)"
      by (simp add: prod_eq_iff)
    from perform_enters_loop [OF _ _ this, of "w # ws"] b l
    show "snd (perform h (w # ws)) = Uncaught e" by simp
  qed
  from c n l p q
  show "cycle w addr g = (trace_until w addr g s, Some e)
     \<and> filter is_error_report (fst (cycle w addr g)) = []
     \<and> worker_loop (w # ws) addr g = (trace_until w addr g s, Uncaught e)
     \<and> (snd (worker_loop pre addr g) = Running \<longrightarrow>
          worker_loop (pre @ w # ws) addr g =
            (fst (worker_loop pre addr g) @ trace_until w addr g s, Uncaught e))
     \<and> (2 \<le> length (argv h) \<and> 0 < device_count h \<and> addr = argv h ! 1 \<and>
         snd (select_gpu_index h) = Inr g \<longrightarrow>
          snd (perform h (w # ws)) = Uncaught e)"
    by blast
qed

theorem base_exception_leaves_loop_witness:
  "raises_at world_interrupted ''0xABC'' 0 Executing (Raised KeyboardInterrupt [])
   \<and> \<not> is_Exception (Raised KeyboardInterrupt [])
   \<and> worker_loop [world_interrupted, world_ok] ''0xABC'' 0 =
       ([print_in_color ''Preparing'' yellow, Sleep 10, Post (acquire_request ''0xABC''),
         print_in_color ''Address 0xABC received the task.'' yellow,
         print_in_color ''Starting training...'' blue, Train example_args 0],
        Uncaught (Raised KeyboardInterrupt []))
   \<and> snd (perform (host_example [''execute.py'', ''0xABC''] 1) [world_interrupted, world_ok]) =
       Uncaught (Raised KeyboardInterrupt [])"
proof -
  let ?h = "host_example [''execute.py'', ''0xABC''] 1"
  have e: "\<not> is_Exception (Raised KeyboardInterrupt [])" by simp
  have r: "snd (register_particle world_interrupted ''0xABC'') = Inr example_args"
    by (simp add: world_interrupted_def world_ok_def register_particle_def acquire_request_def
        coordinator_ok_def respond_def)
  have t: "trace_until world_interrupted ''0xABC'' 0 Executing =
      [print_in_color ''Preparing'' yellow, Sleep 10, Post (acquire_request ''0xABC''),
       print_in_color ''Address 0xABC received the task.'' yellow,
       print_in_color ''Starting training...'' blue, Train example_args 0]"
    by (simp add: until_executed_def until_acquired_def until_prepared_def
        register_particle_trace execute_trace r)
  have hh: "2 \<le> length (argv ?h) \<and> 0 < device_count ?h \<and> ''0xABC'' = argv ?h ! 1 \<and>
      snd (select_gpu_index ?h) = Inr 0"
    by (simp add: host_example_def select_gpu_index_def)
  from base_exception_leaves_loop
    [of world_interrupted "''0xABC''" 0 Executing "Raised KeyboardInterrupt []" "[world_ok]"
        "[]" ?h]
    raises_interrupted e hh
  have "worker_loop [world_interrupted, world_ok] ''0xABC'' 0 =
        (trace_until world_interrupted ''0xABC'' 0 Executing, Uncaught (Raised KeyboardInterrupt []))
      \<and> snd (perform ?h [world_interrupted, world_ok]) = Uncaught (Raised KeyboardInterrupt [])"
    by blast
  with t raises_interrupted e show ?thesis by (simp del: worker_loop.simps)
qed

text \<open>
  C9. Take a world in which some multipart request is answered with status 200 and a
  body that parses, and replace that answer by any other answer with status 200 and a
  body that parses. \<open>complete_task\<close> then returns the other acknowledgement, but
  the cycle, the loop over any cycles before and after it, and \<open>perform\<close> do
  exactly the same: the loop discards what \<open>complete_task\<close> returns.
\<close>

theorem submit_acknowledgement_ignored:
  "is_PostFiles q \<and> post w q = Inr r1 \<and> status_code r1 = 200 \<and> json_result r1 = Inr a1 \<and>
   status_code r2 = 200 \<and> json_result r2 = Inr a2 \<longrightarrow>
     cycle (w\<lparr>post := (post w)(q := Inr r2)\<rparr>) addr g = cycle w addr g
     \<and> worker_loop (pre @ w\<lparr>post := (post w)(q := Inr r2)\<rparr> # ws) addr g =
         worker_loop (pre @ w # ws) addr g
     \<and> perform h (pre @ w\<lparr>post := (post w)(q := Inr r2)\<rparr> # ws) = perform h (pre @ w # ws)
     \<and> (fs_open w config_path = Inr f1 \<and> fs_open w training_args_path = Inr f2 \<and>
         q = submit_request f1 f2 addr \<longrightarrow>
           snd (complete_task w addr) = Inr a1 \<and>
           snd (complete_task (w\<lparr>post := (post w)(q := Inr r2)\<rparr>) addr) = Inr a2)"
proof (intro impI)
  let ?w' = "w\<lparr>post := (post w)(q := Inr r2)\<rparr>"
  assume a: "is_PostFiles q \<and> post w q = Inr r1 \<and> status_code r1 = 200 \<and>
    json_result r1 = Inr a1 \<and> status_code r2 = 200 \<and> json_result r2 = Inr a2"
  then have body: "cycle_body ?w' addr' g' = cycle_body w addr' g'" for addr' g'
    using cycle_body_post_upd [of q w r1 a1 r2 a2 addr' g'] by simp
  then have c: "cycle ?w' addr' g' = cycle w addr' g'" for addr' g'
    by (simp add: cycle_def)
  have l: "worker_loop (pre @ ?w' # ws) addr' g' = worker_loop (pre @ w # ws) addr' g'"
    for addr' g'
    by (rule worker_loop_cycle_cong) (rule c)
  have p: "perform h (pre @ ?w' # ws) = perform h (pre @ w # ws)"
    by (rule perform_worker_loop_cong) (rule l)
  have k: "fs_open w config_path = Inr f1 \<and> fs_open w training_args_path = Inr f2 \<and>
         q = submit_request f1 f2 addr \<longrightarrow>
           snd (complete_task w addr) = Inr a1 \<and> snd (complete_task ?w' addr) = Inr a2"
    using a by (clarsimp simp: complete_task_def Let_def)
  from c [of addr g] l [of addr g] p k
  show "cycle ?w' addr g = cycle w addr g
     \<and> worker_loop (pre @ ?w' # ws) addr g = worker_loop (pre @ w # ws) addr g
     \<and> perform h (pre @ ?w' # ws) = perform h (pre @ w # ws)
     \<and> (fs_open w config_path = Inr f1 \<and> fs_open w training_args_path = Inr f2 \<and>
         q = submit_request f1 f2 addr \<longrightarrow>
           snd (complete_task w addr) = Inr a1 \<and> snd (complete_task ?w' addr) = Inr a2)"
    by blast
qed

theorem submit_acknowledgement_ignored_witness:
  "is_PostFiles example_submit_request
   \<and> post world_ok example_submit_request =
       Inr \<lparr>status_code = 200, json_result = Inr (JObj [(''status'', JStr ''ok'')])\<rparr>
   \<and> status_code other_ack = 200
   \<and> json_result other_ack = Inr (JArr [JStr ''duplicate'', JNum 7])
   \<and> snd (complete_task world_ok ''0xABC'') = Inr (JObj [(''status'', JStr ''ok'')])
   \<and> snd (complete_task
         (world_ok\<lparr>post := (post world_ok)(example_submit_request := Inr other_ack)\<rparr>)
         ''0xABC'') = Inr (JArr [JStr ''duplicate'', JNum 7])
   \<and> cycle (world_ok\<lparr>post := (post world_ok)(example_submit_request := Inr other_ack)\<rparr>)
         ''0xABC'' 0 = cycle world_ok ''0xABC'' 0
   \<and> worker_loop
         ([world_ok] @
          world_ok\<lparr>post := (post world_ok)(example_submit_request := Inr other_ack)\<rparr> #
          [world_acquire_500]) ''0xABC'' 0 =
       worker_loop ([world_ok] @ world_ok # [world_acquire_500]) ''0xABC'' 0"
proof -
  have h: "status_code other_ack = 200
      \<and> json_result other_ack = Inr (JArr [JStr ''duplicate'', JNum 7])"
    by (simp add: other_ack_def)
  have r1: "status_code \<lparr>status_code = 200, json_result = Inr (JObj [(''status'', JStr ''ok'')])\<rparr> = 200
      \<and> json_result \<lparr>status_code = 200, json_result = Inr (JObj [(''status'', JStr ''ok'')])\<rparr> =
          Inr (JObj [(''status'', JStr ''ok'')])"
    by simp
  have q: "example_submit_request =
      submit_request \<lparr>file_path = config_path, file_bytes = []\<rparr>
        \<lparr>file_path = training_args_path, file_bytes = []\<rparr> ''0xABC''"
    by (simp add: example_submit_request_def)
  from submit_acknowledgement_ignored
    [of example_submit_request world_ok
        "\<lparr>status_code = 200, json_result = Inr (JObj [(''status'', JStr ''ok'')])\<rparr>"
        "JObj [(''status'', JStr ''ok'')]" other_ack "JArr [JStr ''duplicate'', JNum 7]"
        "''0xABC''" 0 "[world_ok]" "[world_acquire_500]" "host_example [] 0"
        "\<lparr>file_path = config_path, file_bytes = []\<rparr>"
        "\<lparr>file_path = training_args_path, file_bytes = []\<rparr>"]
    example_submit_request_post h r1 world_ok_files q
  have "snd (complete_task world_ok ''0xABC'') = Inr (JObj [(''status'', JStr ''ok'')])
   \<and> snd (complete_task
         (world_ok\<lparr>post := (post world_ok)(example_submit_request := Inr other_ack)\<rparr>)
         ''0xABC'') = Inr (JArr [JStr ''duplicate'', JNum 7])
   \<and> cycle (world_ok\<lparr>post := (post world_ok)(example_submit_request := Inr other_ack)\<rparr>)
         ''0xABC'' 0 = cycle world_ok ''0xABC'' 0
   \<and> worker_loop
         ([world_ok] @
          world_ok\<lparr>post := (post world_ok)(example_submit_request := Inr other_ack)\<rparr> #
          [world_acquire_500]) ''0xABC'' 0 =
       worker_loop ([world_ok] @ world_ok # [world_acquire_500]) ''0xABC'' 0"
    by blast
  with example_submit_request_post h show ?thesis by blast
qed

end
